theory Spec2Isabelle
  imports Main
begin

section \<open>Extension point bindings\<close>

text \<open>
  The module \<^verbatim>\<open>enthought/envisage/extension_point_binding.py\<close> keeps one trait of one
  object in step with one extension point of the extension registry. Its handlers are
  called back by two collaborators, the object and the registry, and call them in turn,
  so the model threads one explicit world through every call: the class attribute
  \<^verbatim>\<open>ExtensionPointBinding.extension_registry\<close>, the binding instances, the objects,
  and a log of the calls that reached a collaborator.
\<close>

subsection \<open>Values, errors and results\<close>

text \<open>The value of an extension point or of a trait: an ordered collection of contributions.\<close>

type_synonym pyval = "string list"

text \<open>
  \<^verbatim>\<open>AttributeError\<close> is what Python raises for \<^verbatim>\<open>None.get_extensions\<close>, that is when
  the class attribute has not been set. It is the one exception that the code of the
  binding can raise by itself.
\<close>

datatype error = AttributeError

subsection \<open>The data\<close>

text \<open>
  The traits of \<^verbatim>\<open>ExtensionPointBinding\<close>: \<^verbatim>\<open>obj\<close> (a reference, here the address of the
  object), \<^verbatim>\<open>extension_point\<close>, \<^verbatim>\<open>trait_name\<close> and the private flag
  \<^verbatim>\<open>_event_handled\<close>.
\<close>

record binding =
  obj :: nat
  extension_point :: string
  trait_name :: string
  event_handled :: bool

text \<open>
  Modelled from the spec: the observable object, which belongs to the traits library and
  is not part of the sources. Section 6 of the specification gives its capability: read
  and write a named field with an option to suppress the change notification, and
  subscribe a callback to the changes of a named field. \<open>traits\<close> holds the values of
  the fields that have been written (\<open>None\<close> for a field without a value); a
  subscription is the pair of the field name and the address of the binding whose
  \<^verbatim>\<open>_on_trait_changed\<close> was subscribed. The specification does not say whether a write
  that stores an equal value counts as a change, so the decision is a parameter of the
  object: \<open>fires ob old new\<close> tells whether a notifying write that replaces \<open>old\<close> by
  \<open>new\<close> is reported to the subscribers.
\<close>

record observable =
  traits :: "string \<rightharpoonup> pyval"
  trait_listeners :: "(string \<times> nat) list"
  fires :: "pyval option \<Rightarrow> pyval \<Rightarrow> bool"

text \<open>
  Modelled from the spec: the extension registry, whose class is not part of the sources.
  Section 2 of the specification: a mapping from extension point id to an ordered
  collection of contributed values that supports get, set and listener subscription keyed
  by extension point id. A subscription is the pair of the extension point id and the
  address of the binding whose \<^verbatim>\<open>_on_extension_point_changed\<close> was subscribed.
\<close>

record registry =
  extensions :: "string \<Rightarrow> pyval"
  listeners :: "(string \<times> nat) list"

text \<open>The calls that take effect on a collaborator, in the order they happen.\<close>

datatype event =
    GetExtensions string
  | SetExtensions string pyval
  | SetField nat string pyval bool
  | OnTraitChange nat string nat
  | AddExtensionListener string nat

text \<open>
  The world. \<open>extension_registry\<close> is the class attribute shared by all bindings
  (\<open>None\<close> as long as nobody has set it); \<open>bindings\<close> and \<open>objects\<close> are the stores of
  binding instances and of objects, by address; \<open>next_binding\<close> is the address the next
  binding instance gets.
\<close>

record world =
  extension_registry :: "registry option"
  bindings :: "nat \<Rightarrow> binding"
  next_binding :: nat
  objects :: "nat \<Rightarrow> observable"
  calls :: "event list"

text \<open>
  A call returns \<open>None\<close> when the fuel is used up before it has returned, and otherwise
  the world it leaves behind together with \<open>Inr\<close> of its value or \<open>Inl\<close> of the
  exception it raised. An exception keeps every change made before it was raised.
\<close>

type_synonym 'a result = "((error + 'a) \<times> world) option"

definition log :: "event \<Rightarrow> world \<Rightarrow> world" where
  "log e w = w\<lparr>calls := calls w @ [e]\<rparr>"

definition set_event_handled :: "nat \<Rightarrow> bool \<Rightarrow> world \<Rightarrow> world" where
  "set_event_handled b flag w =
     w\<lparr>bindings := (bindings w)(b := (bindings w b)\<lparr>event_handled := flag\<rparr>)\<rparr>"

definition store_field :: "nat \<Rightarrow> string \<Rightarrow> pyval \<Rightarrow> world \<Rightarrow> world" where
  "store_field ob name v w =
     w\<lparr>objects := (objects w)(ob := (objects w ob)\<lparr>traits := (traits (objects w ob))(name \<mapsto> v)\<rparr>)\<rparr>"

subsection \<open>The registry's read\<close>

text \<open>
  Modelled from the spec: \<^verbatim>\<open>get_extensions(id)\<close> of the registry, which returns the
  value the registry holds for the id. The binding calls it as
  \<^verbatim>\<open>self.extension_registry.get_extensions(id)\<close>, and while the class attribute is
  \<^verbatim>\<open>None\<close> that attribute lookup raises.
\<close>

definition get_extensions :: "world \<Rightarrow> string \<Rightarrow> (error + pyval) \<times> world" where
  "get_extensions w ep =
     (case extension_registry w of
        None \<Rightarrow> (Inl AttributeError, w)
      | Some r \<Rightarrow> (Inr (extensions r ep), log (GetExtensions ep) w))"

subsection \<open>The handlers and the collaborators that call them\<close>

text \<open>
  The methods of the binding and the two notifying operations of the collaborators call
  each other: a write to a trait notifies \<^verbatim>\<open>_on_trait_changed\<close>, which writes the
  registry, which notifies \<^verbatim>\<open>_on_extension_point_changed\<close>, which writes the trait. With
  several bindings on one trait the chain need not end, so every call takes fuel, and
  the seven procedures of the chain are the seven cases of one function \<open>run\<close> over the
  calls. Three of them are the methods of the binding, as the source has them:

  \<^item> \<open>Set_trait b notify\<close> is \<^verbatim>\<open>_set_trait(notify)\<close> of the binding at \<open>b\<close>.
  \<^item> \<open>On_trait_changed b ob name old new\<close> is
    \<^verbatim>\<open>_on_trait_changed(obj, trait_name, old, new)\<close> of the binding at \<open>b\<close>.
  \<^item> \<open>On_extension_point_changed b\<close> is
    \<^verbatim>\<open>_on_extension_point_changed(registry, id, added, removed)\<close> of the binding at \<open>b\<close>;
    the method reads none of its four arguments, so the model does not pass them.
\<close>

text \<open>
  Modelled from the spec: the four cases that belong to the collaborators, whose code is
  not part of the sources (sections 4.1, 6 and 7 of the specification).

  \<^item> \<open>Hastraits_set ob name v notify\<close> is
    \<^verbatim>\<open>obj.set(trait_change_notify=notify, **{name: v})\<close>: the value is stored in the named
    field, and a notifying write that the object counts as a change calls the subscribers
    of that field, in the order of their subscription, with the old and the new value.
  \<^item> \<open>Trait_dispatch ls ob name old new\<close> is the object's loop over those subscribers.
  \<^item> \<open>Set_extensions ep v\<close> is \<^verbatim>\<open>extension_registry.set_extensions(ep, v)\<close>: the
    registry stores the value and calls the listeners of that id, in the order of their
    subscription; on \<^verbatim>\<open>None\<close> the attribute lookup raises.
  \<^item> \<open>Call_listeners ls\<close> is the registry's loop over those listeners.

  An exception raised by a handler leaves the loop that called it and reaches the caller
  of the write (section 7 of the specification: no silent swallowing).
\<close>

datatype call =
    Set_trait nat bool
  | Hastraits_set nat string pyval bool
  | Trait_dispatch "(string \<times> nat) list" nat string "pyval option" pyval
  | On_trait_changed nat nat string "pyval option" pyval
  | Set_extensions string pyval
  | Call_listeners "(string \<times> nat) list"
  | On_extension_point_changed nat

fun run :: "nat \<Rightarrow> call \<Rightarrow> world \<Rightarrow> unit result" where
  "run 0 c w = None"
| "run (Suc n) (Set_trait b notify) w =
     (case get_extensions w (extension_point (bindings w b)) of
        (Inl e, w') \<Rightarrow> Some (Inl e, w')
      | (Inr v, w') \<Rightarrow>
          run n (Hastraits_set (obj (bindings w b)) (trait_name (bindings w b)) v notify) w')"
| "run (Suc n) (Hastraits_set ob name v notify) w =
     (if notify \<and> fires (objects w ob) (traits (objects w ob) name) v
      then run n (Trait_dispatch
                    (filter (\<lambda>l. fst l = name) (trait_listeners (objects w ob)))
                    ob name (traits (objects w ob) name) v)
             (log (SetField ob name v notify) (store_field ob name v w))
      else Some (Inr (), log (SetField ob name v notify) (store_field ob name v w)))"
| "run (Suc n) (Trait_dispatch [] ob name old new) w = Some (Inr (), w)"
| "run (Suc n) (Trait_dispatch (l # ls) ob name old new) w =
     (case run n (On_trait_changed (snd l) ob name old new) w of
        None \<Rightarrow> None
      | Some (Inl e, w') \<Rightarrow> Some (Inl e, w')
      | Some (Inr u, w') \<Rightarrow> run n (Trait_dispatch ls ob name old new) w')"
| "run (Suc n) (On_trait_changed b ob name old new) w =
     (if \<not> event_handled (bindings w b)
      then run n (Set_extensions (extension_point (bindings w b)) new) w
      else Some (Inr (), w))"
| "run (Suc n) (Set_extensions ep v) w =
     (case extension_registry w of
        None \<Rightarrow> Some (Inl AttributeError, w)
      | Some r \<Rightarrow>
          run n (Call_listeners (filter (\<lambda>l. fst l = ep) (listeners r)))
            (log (SetExtensions ep v)
               (w\<lparr>extension_registry := Some (r\<lparr>extensions := (extensions r)(ep := v)\<rparr>)\<rparr>)))"
| "run (Suc n) (Call_listeners []) w = Some (Inr (), w)"
| "run (Suc n) (Call_listeners (l # ls)) w =
     (case run n (On_extension_point_changed (snd l)) w of
        None \<Rightarrow> None
      | Some (Inl e, w') \<Rightarrow> Some (Inl e, w')
      | Some (Inr u, w') \<Rightarrow> run n (Call_listeners ls) w')"
| "run (Suc n) (On_extension_point_changed b) w =
     (case run n (Set_trait b True) (set_event_handled b True w) of
        None \<Rightarrow> None
      | Some (Inl e, w') \<Rightarrow> Some (Inl e, w')
      | Some (Inr u, w') \<Rightarrow> Some (Inr (), set_event_handled b False w'))"

text \<open>The same calls under the names of the source.\<close>

abbreviation set_trait :: "nat \<Rightarrow> world \<Rightarrow> nat \<Rightarrow> bool \<Rightarrow> unit result" where
  "set_trait n w b notify \<equiv> run n (Set_trait b notify) w"

abbreviation hastraits_set ::
  "nat \<Rightarrow> world \<Rightarrow> nat \<Rightarrow> string \<Rightarrow> pyval \<Rightarrow> bool \<Rightarrow> unit result" where
  "hastraits_set n w ob name v notify \<equiv> run n (Hastraits_set ob name v notify) w"

abbreviation on_trait_changed ::
  "nat \<Rightarrow> world \<Rightarrow> nat \<Rightarrow> nat \<Rightarrow> string \<Rightarrow> pyval option \<Rightarrow> pyval \<Rightarrow> unit result"
where
  "on_trait_changed n w b ob name old new \<equiv> run n (On_trait_changed b ob name old new) w"

abbreviation set_extensions :: "nat \<Rightarrow> world \<Rightarrow> string \<Rightarrow> pyval \<Rightarrow> unit result" where
  "set_extensions n w ep v \<equiv> run n (Set_extensions ep v) w"

abbreviation on_extension_point_changed :: "nat \<Rightarrow> world \<Rightarrow> nat \<Rightarrow> unit result" where
  "on_extension_point_changed n w b \<equiv> run n (On_extension_point_changed b) w"

subsection \<open>Construction\<close>

text \<open>
  Modelled from the spec: \<^verbatim>\<open>obj.on_trait_change(self._on_trait_changed, name)\<close>, the
  subscription to the changes of a field of the object. The subscription is added after
  the ones already there.
\<close>

definition on_trait_change :: "world \<Rightarrow> nat \<Rightarrow> nat \<Rightarrow> string \<Rightarrow> world" where
  "on_trait_change w ob b name =
     log (OnTraitChange ob name b)
       (w\<lparr>objects := (objects w)
            (ob := (objects w ob)\<lparr>trait_listeners := trait_listeners (objects w ob) @ [(name, b)]\<rparr>)\<rparr>)"

text \<open>
  Modelled from the spec:
  \<^verbatim>\<open>extension_registry.add_extension_listener(self._on_extension_point_changed, id)\<close>, the
  subscription to the changes of an extension point. The subscription is added after the
  ones already there; on \<^verbatim>\<open>None\<close> the attribute lookup raises.
\<close>

definition add_extension_listener :: "world \<Rightarrow> nat \<Rightarrow> string \<Rightarrow> (error + unit) \<times> world" where
  "add_extension_listener w b ep =
     (case extension_registry w of
        None \<Rightarrow> (Inl AttributeError, w)
      | Some r \<Rightarrow>
          (Inr (), log (AddExtensionListener ep b)
                     (w\<lparr>extension_registry := Some (r\<lparr>listeners := listeners r @ [(ep, b)]\<rparr>)\<rparr>)))"

text \<open>\<^verbatim>\<open>_initialize()\<close>: first the listener on the trait, then the one on the registry.\<close>

definition initialize :: "world \<Rightarrow> nat \<Rightarrow> (error + unit) \<times> world" where
  "initialize w b =
     add_extension_listener
       (on_trait_change w (obj (bindings w b)) b (trait_name (bindings w b)))
       b (extension_point (bindings w b))"

text \<open>
  \<^verbatim>\<open>HasTraits.__init__(**traits)\<close> on a fresh instance: the three traits get the values
  given, \<^verbatim>\<open>_event_handled\<close> has the class default \<^verbatim>\<open>False\<close>.
\<close>

definition new_binding :: "world \<Rightarrow> nat \<Rightarrow> string \<Rightarrow> string \<Rightarrow> world" where
  "new_binding w ob tn ep =
     w\<lparr>bindings := (bindings w)
          (next_binding w :=
             \<lparr>obj = ob, extension_point = ep, trait_name = tn, event_handled = False\<rparr>),
       next_binding := Suc (next_binding w)\<rparr>"

text \<open>
  \<^verbatim>\<open>__init__\<close>: \<^verbatim>\<open>self._set_trait(notify=False)\<close>, then \<^verbatim>\<open>self._initialize()\<close>. The value
  is the address of the new binding.
\<close>

definition init :: "nat \<Rightarrow> world \<Rightarrow> nat \<Rightarrow> string \<Rightarrow> string \<Rightarrow> nat result" where
  "init n w ob tn ep =
     (case set_trait n (new_binding w ob tn ep) (next_binding w) False of
        None \<Rightarrow> None
      | Some (Inl e, w1) \<Rightarrow> Some (Inl e, w1)
      | Some (Inr u, w1) \<Rightarrow>
          (case initialize w1 (next_binding w) of
             (Inl e, w2) \<Rightarrow> Some (Inl e, w2)
           | (Inr u, w2) \<Rightarrow> Some (Inr (next_binding w), w2)))"

text \<open>The factory \<^verbatim>\<open>bind_extension_point(obj, trait_name, extension_point)\<close>.\<close>

definition bind_extension_point :: "nat \<Rightarrow> world \<Rightarrow> nat \<Rightarrow> string \<Rightarrow> string \<Rightarrow> nat result" where
  "bind_extension_point n w ob tn ep = init n w ob tn ep"

subsection \<open>Bindings that do not meet on a trait\<close>

text \<open>
  The binding at \<open>b\<close> is the one subscriber to changes of its trait on its object.
\<close>

definition alone_on_trait :: "world \<Rightarrow> nat \<Rightarrow> bool" where
  "alone_on_trait w b =
     (filter (\<lambda>l. fst l = trait_name (bindings w b))
        (trait_listeners (objects w (obj (bindings w b))))
      = [(trait_name (bindings w b), b)])"




text \<open>The counters a test would keep: the writes that reached the registry and the object.\<close>

fun is_set_extensions :: "event \<Rightarrow> bool" where
  "is_set_extensions (SetExtensions ep v) = True"
| "is_set_extensions e = False"

fun is_set_field :: "event \<Rightarrow> bool" where
  "is_set_field (SetField ob name v notify) = True"
| "is_set_field e = False"

definition registry_writes :: "world \<Rightarrow> nat" where
  "registry_writes w = length (filter is_set_extensions (calls w))"

definition field_writes :: "world \<Rightarrow> nat" where
  "field_writes w = length (filter is_set_field (calls w))"

subsection \<open>The methods of a binding\<close>

text \<open>
  The class defines four methods besides its constructor. \<open>invoke\<close> calls one of them
  on the binding at \<open>b\<close>.
\<close>

datatype binding_method =
    M_on_trait_changed nat string "pyval option" pyval
  | M_on_extension_point_changed
  | M_initialize
  | M_set_trait bool

definition invoke :: "nat \<Rightarrow> world \<Rightarrow> nat \<Rightarrow> binding_method \<Rightarrow> unit result" where
  "invoke n w b m =
     (case m of
        M_on_trait_changed ob name old new \<Rightarrow> on_trait_changed n w b ob name old new
      | M_on_extension_point_changed \<Rightarrow> on_extension_point_changed n w b
      | M_initialize \<Rightarrow> Some (initialize w b)
      | M_set_trait notify \<Rightarrow> set_trait n w b notify)"

text \<open>
  Whether the two directions of the synchronisation work in a world: a change of the
  extension point arrives in the trait, and a notifying write of the trait arrives in the
  registry.
\<close>

definition registry_change_reaches_trait :: "nat \<Rightarrow> world \<Rightarrow> nat \<Rightarrow> pyval \<Rightarrow> bool" where
  "registry_change_reaches_trait n w b v =
     (case set_extensions n w (extension_point (bindings w b)) v of
        Some (Inr u, w') \<Rightarrow>
          traits (objects w' (obj (bindings w b))) (trait_name (bindings w b)) = Some v
      | _ \<Rightarrow> False)"

definition trait_change_reaches_registry :: "nat \<Rightarrow> world \<Rightarrow> nat \<Rightarrow> pyval \<Rightarrow> bool" where
  "trait_change_reaches_registry n w b v =
     (case hastraits_set n w (obj (bindings w b)) (trait_name (bindings w b)) v True of
        Some (Inr u, w') \<Rightarrow>
          (case extension_registry w' of
             None \<Rightarrow> False
           | Some r \<Rightarrow> extensions r (extension_point (bindings w b)) = v)
      | _ \<Rightarrow> False)"

text \<open>Whether both directions still work after a method of the binding has been called.\<close>

definition synchronised_after ::
  "nat \<Rightarrow> world \<Rightarrow> nat \<Rightarrow> binding_method \<Rightarrow> pyval \<Rightarrow> pyval \<Rightarrow> bool" where
  "synchronised_after n w b m v v' =
     (case invoke n w b m of
        None \<Rightarrow> False
      | Some (res, w') \<Rightarrow>
          registry_change_reaches_trait n w' b v \<and> trait_change_reaches_registry n w' b v')"

subsection \<open>Example worlds\<close>

text \<open>
  One object at address 0 with a trait \<^verbatim>\<open>views\<close>, which reports a write when the value
  differs from the old one, and a registry whose extension point \<^verbatim>\<open>acme.views\<close> has two
  contributions. \<open>ex_world\<close> has no binding yet; \<open>ex_bound\<close> is the world after
  \<^verbatim>\<open>bind_extension_point(obj, 'views', 'acme.views')\<close>; \<open>ex_twice\<close> is the world after
  the same call has been made a second time, so that two bindings share the trait and the
  extension point.
\<close>

definition blank_binding :: binding where
  "blank_binding = \<lparr>obj = 0, extension_point = [], trait_name = [], event_handled = False\<rparr>"

definition ex_registry :: registry where
  "ex_registry =
     \<lparr>extensions = (\<lambda>ep. if ep = ''acme.views'' then [''a'', ''b''] else []), listeners = []\<rparr>"

definition ex_object :: observable where
  "ex_object =
     \<lparr>traits = [''views'' \<mapsto> []], trait_listeners = [],
      fires = (\<lambda>old new. old \<noteq> Some new)\<rparr>"

definition ex_world :: world where
  "ex_world =
     \<lparr>extension_registry = Some ex_registry, bindings = (\<lambda>a. blank_binding),
      next_binding = 0, objects = (\<lambda>a. ex_object), calls = []\<rparr>"

definition ex_bound :: world where
  "ex_bound =
     \<lparr>extension_registry = Some (ex_registry\<lparr>listeners := [(''acme.views'', 0)]\<rparr>),
      bindings = (\<lambda>a. blank_binding)
        (0 := \<lparr>obj = 0, extension_point = ''acme.views'', trait_name = ''views'',
               event_handled = False\<rparr>),
      next_binding = 1,
      objects = (\<lambda>a. ex_object)
        (0 := \<lparr>traits = [''views'' \<mapsto> [''a'', ''b'']], trait_listeners = [(''views'', 0)],
               fires = (\<lambda>old new. old \<noteq> Some new)\<rparr>),
      calls = [GetExtensions ''acme.views'', SetField 0 ''views'' [''a'', ''b''] False,
               OnTraitChange 0 ''views'' 0, AddExtensionListener ''acme.views'' 0]\<rparr>"

definition ex_twice :: world where
  "ex_twice =
     \<lparr>extension_registry =
        Some (ex_registry\<lparr>listeners := [(''acme.views'', 0), (''acme.views'', 1)]\<rparr>),
      bindings = (\<lambda>a. blank_binding)
        (0 := \<lparr>obj = 0, extension_point = ''acme.views'', trait_name = ''views'',
               event_handled = False\<rparr>,
         1 := \<lparr>obj = 0, extension_point = ''acme.views'', trait_name = ''views'',
               event_handled = False\<rparr>),
      next_binding = 2,
      objects = (\<lambda>a. ex_object)
        (0 := \<lparr>traits = [''views'' \<mapsto> [''a'', ''b'']],
               trait_listeners = [(''views'', 0), (''views'', 1)],
               fires = (\<lambda>old new. old \<noteq> Some new)\<rparr>),
      calls = [GetExtensions ''acme.views'', SetField 0 ''views'' [''a'', ''b''] False,
               OnTraitChange 0 ''views'' 0, AddExtensionListener ''acme.views'' 0,
               GetExtensions ''acme.views'', SetField 0 ''views'' [''a'', ''b''] False,
               OnTraitChange 0 ''views'' 1, AddExtensionListener ''acme.views'' 1]\<rparr>"

text \<open>
  \<open>ex_pair\<close>: the world after \<open>ex_bound\<close> and
  \<^verbatim>\<open>bind_extension_point(other, 'views', 'acme.views')\<close> for a second object, at
  address 1: two bindings share the extension point, each alone on its trait.
\<close>

definition ex_pair :: world where
  "ex_pair =
     \<lparr>extension_registry =
        Some (ex_registry\<lparr>listeners := [(''acme.views'', 0), (''acme.views'', 1)]\<rparr>),
      bindings = (\<lambda>a. blank_binding)
        (0 := \<lparr>obj = 0, extension_point = ''acme.views'', trait_name = ''views'',
               event_handled = False\<rparr>,
         1 := \<lparr>obj = 1, extension_point = ''acme.views'', trait_name = ''views'',
               event_handled = False\<rparr>),
      next_binding = 2,
      objects = (\<lambda>a. ex_object)
        (0 := \<lparr>traits = [''views'' \<mapsto> [''a'', ''b'']], trait_listeners = [(''views'', 0)],
               fires = (\<lambda>old new. old \<noteq> Some new)\<rparr>,
         1 := \<lparr>traits = [''views'' \<mapsto> [''a'', ''b'']], trait_listeners = [(''views'', 1)],
               fires = (\<lambda>old new. old \<noteq> Some new)\<rparr>),
      calls = [GetExtensions ''acme.views'', SetField 0 ''views'' [''a'', ''b''] False,
               OnTraitChange 0 ''views'' 0, AddExtensionListener ''acme.views'' 0,
               GetExtensions ''acme.views'', SetField 1 ''views'' [''a'', ''b''] False,
               OnTraitChange 1 ''views'' 1, AddExtensionListener ''acme.views'' 1]\<rparr>"

text \<open>
  \<open>ex_unset\<close>: the class attribute has been reset to \<^verbatim>\<open>None\<close> after the binding was
  made.
\<close>

definition ex_unset :: world where
  "ex_unset = ex_bound\<lparr>extension_registry := None\<rparr>"

section \<open>The plugin manager\<close>

text \<open>
  Of the plugin manager the sources hold only the test case
  \<^verbatim>\<open>envisage/tests/canopy_plugin_manager_test_case.py\<close>; the class
  \<^verbatim>\<open>CanopyPluginManager\<close> and the class \<^verbatim>\<open>Plugin\<close> are not among them. The definitions of
  this section follow sections 3 and 4.3 of the specification, and the tests are the
  examples they are run on.
\<close>

subsection \<open>Matching a plugin id against a pattern\<close>

text \<open>
  Modelled from the spec: the matching of the module \<^verbatim>\<open>fnmatch\<close>, which is not part of
  the sources. Section 4.3: shell-glob semantics (\<^verbatim>\<open>*\<close>, \<^verbatim>\<open>?\<close>, character classes)
  against the plugin id string, not regular expressions, and case-sensitive. A pattern is
  read into tokens: \<^verbatim>\<open>*\<close> stands for any run of characters, \<^verbatim>\<open>?\<close> for any one
  character, \<^verbatim>\<open>[...]\<close> for one character of the class (of none of it after \<^verbatim>\<open>[!\<close>), every
  other character for itself. In a class \<^verbatim>\<open>a-z\<close> is a range, a \<^verbatim>\<open>]\<close> in first place
  belongs to the class, and a \<^verbatim>\<open>[\<close> that no \<^verbatim>\<open>]\<close> closes stands for itself.
\<close>

datatype token = Star | Question | Class bool "(char \<times> char) list" | Lit char

fun class_items :: "string \<Rightarrow> (char \<times> char) list" where
  "class_items (a # m # b # cs) =
     (if m = CHR ''-'' then (a, b) # class_items cs else (a, a) # class_items (m # b # cs))"
| "class_items (a # cs) = (a, a) # class_items cs"
| "class_items [] = []"

definition in_class :: "char \<Rightarrow> (char \<times> char) list \<Rightarrow> bool" where
  "in_class c items =
     list_ex (\<lambda>(lo, hi). (of_char lo :: nat) \<le> of_char c \<and> (of_char c :: nat) \<le> of_char hi)
       items"

text \<open>
  The pattern after a \<^verbatim>\<open>[\<close>: whether the class is negated, the text of the class, and
  the pattern after the closing \<^verbatim>\<open>]\<close>; \<open>None\<close> when nothing closes the class.
\<close>

definition split_class :: "string \<Rightarrow> (bool \<times> string \<times> string) option" where
  "split_class ps =
     (let neg = (case ps of [] \<Rightarrow> False | c # qs \<Rightarrow> c = CHR ''!'');
          qs = (if neg then tl ps else ps);
          first = (case qs of [] \<Rightarrow> [] | c # rs \<Rightarrow> if c = CHR '']'' then [c] else []);
          rs = drop (length first) qs
      in case dropWhile (\<lambda>c. c \<noteq> CHR '']'') rs of
           [] \<Rightarrow> None
         | c # rest \<Rightarrow> Some (neg, first @ takeWhile (\<lambda>c. c \<noteq> CHR '']'') rs, rest))"

function tokens :: "string \<Rightarrow> token list" where
  "tokens [] = []"
| "tokens (c # cs) =
     (if c = CHR ''*'' then Star # tokens cs
      else if c = CHR ''?'' then Question # tokens cs
      else if c = CHR ''['' then
        (case split_class cs of
           None \<Rightarrow> Lit c # tokens cs
         | Some (neg, body, rest) \<Rightarrow> Class neg (class_items body) # tokens rest)
      else Lit c # tokens cs)"
  by pat_completeness auto
termination
proof (relation "measure length")
  show "wf (measure length)"
    by simp
next
  fix c :: char and cs :: string and x2 x y x2a ya
  assume "split_class cs = Some x2" "(x, y) = x2" "(x2a, ya) = y"
  then have s: "split_class cs = Some (x, x2a, ya)"
    by simp
  define qs where
    "qs = (if (case cs of [] \<Rightarrow> False | c # qs \<Rightarrow> c = CHR ''!'') then tl cs else cs)"
  define rs where
    "rs = drop (length (case qs of [] \<Rightarrow> [] | c # rs \<Rightarrow> if c = CHR '']'' then [c] else [])) qs"
  from s obtain d where "dropWhile (\<lambda>c. c \<noteq> CHR '']'') rs = d # ya"
    unfolding split_class_def Let_def qs_def rs_def by (auto split: list.splits)
  then have "Suc (length ya) = length (dropWhile (\<lambda>c. c \<noteq> CHR '']'') rs)"
    by simp
  also have "\<dots> \<le> length rs"
    by (rule length_dropWhile_le)
  also have "\<dots> \<le> length cs"
    by (simp add: rs_def qs_def)
  finally show "(ya, c # cs) \<in> measure length"
    by simp
qed simp_all

fun matches :: "token list \<Rightarrow> string \<Rightarrow> bool" where
  "matches [] s = (s = [])"
| "matches (Star # ts) [] = matches ts []"
| "matches (Star # ts) (c # cs) = (matches ts (c # cs) \<or> matches (Star # ts) cs)"
| "matches (Question # ts) (c # cs) = matches ts cs"
| "matches (Class neg items # ts) (c # cs) = ((neg \<noteq> in_class c items) \<and> matches ts cs)"
| "matches (Lit a # ts) (c # cs) = (a = c \<and> matches ts cs)"
| "matches ts [] = False"

text \<open>\<^verbatim>\<open>fnmatch(name, pat)\<close>.\<close>

definition fnmatch :: "string \<Rightarrow> string \<Rightarrow> bool" where
  "fnmatch name pat = matches (tokens pat) name"

text \<open>The characters of a pattern that do not stand for themselves.\<close>

definition special :: "char \<Rightarrow> bool" where
  "special c = (c = CHR ''*'' \<or> c = CHR ''?'' \<or> c = CHR ''['')"

subsection \<open>Plugins and the manager\<close>

text \<open>
  Modelled from the spec: a plugin (section 3), whose class is not part of the sources:
  an identity and the two status flags, both false after construction. Whether the
  plugin's own start and stop operations fail is the plugin's business; the two last
  fields say so.
\<close>

record plugin =
  plugin_id :: string
  started :: bool
  stopped :: bool
  start_fails :: bool
  stop_fails :: bool

text \<open>
  Plugins are objects the manager refers to: a heap maps addresses to plugins, and the
  manager holds addresses.
\<close>

type_synonym heap = "nat \<Rightarrow> plugin"

text \<open>
  Modelled from the spec: the manager of section 3, whose class is not part of the
  sources: the ordered plugins, and the include and exclude patterns.
\<close>

record plugin_manager =
  plugins :: "nat list"
  include_list :: "string list"
  exclude_list :: "string list"

text \<open>An optional pattern list; a list that was not given is empty.\<close>

definition patterns :: "string list option \<Rightarrow> string list" where
  "patterns opt = (case opt of None \<Rightarrow> [] | Some pats \<Rightarrow> pats)"

text \<open>
  Modelled from the spec: the filter of sections 3 and 4.3. The patterns of a list are
  tried one after the other and the first that matches decides; an empty include list
  includes every id, an empty exclude list excludes none; exclude is evaluated after
  include.
\<close>

fun any_match :: "string \<Rightarrow> string list \<Rightarrow> bool" where
  "any_match pid [] = False"
| "any_match pid (pat # pats) = (if fnmatch pid pat then True else any_match pid pats)"

definition is_included :: "plugin_manager \<Rightarrow> string \<Rightarrow> bool" where
  "is_included m pid = (if include_list m = [] then True else any_match pid (include_list m))"

definition is_excluded :: "plugin_manager \<Rightarrow> string \<Rightarrow> bool" where
  "is_excluded m pid = (if exclude_list m = [] then False else any_match pid (exclude_list m))"

fun filter_plugins :: "plugin_manager \<Rightarrow> heap \<Rightarrow> nat list \<Rightarrow> nat list" where
  "filter_plugins m h [] = []"
| "filter_plugins m h (a # as) =
     (if is_included m (plugin_id (h a)) \<and> \<not> is_excluded m (plugin_id (h a))
      then a # filter_plugins m h as
      else filter_plugins m h as)"

text \<open>
  Modelled from the spec: \<^verbatim>\<open>create(plugins, plugin_path, include, exclude)\<close> of section
  4.3. The candidates are the plugins given explicitly followed by those the source
  resolver found on the plugin path; the resolver is outside the model, so what it found
  is the argument \<open>resolved\<close>.
\<close>

definition create ::
  "heap \<Rightarrow> nat list \<Rightarrow> nat list \<Rightarrow> string list option \<Rightarrow> string list option \<Rightarrow> plugin_manager"
where
  "create h explicit resolved inc exc =
     (let m = \<lparr>plugins = [], include_list = patterns inc, exclude_list = patterns exc\<rparr>
      in m\<lparr>plugins := filter_plugins m h (explicit @ resolved)\<rparr>)"

text \<open>\<^verbatim>\<open>get_plugin(id)\<close>: the first plugin held with that id, if there is one.\<close>

definition get_plugin :: "plugin_manager \<Rightarrow> heap \<Rightarrow> string \<Rightarrow> nat option" where
  "get_plugin m h pid = find (\<lambda>a. plugin_id (h a) = pid) (plugins m)"

text \<open>
  Modelled from the spec: \<^verbatim>\<open>start()\<close> and \<^verbatim>\<open>stop()\<close> of section 4.3. Every plugin held
  is started in sequence order and stopped in reverse order. A plugin whose operation
  fails keeps its status, the pass goes on, and the ids of the failed plugins are
  reported together after the pass.
\<close>

datatype lifecycle_error = PluginStartError "string list" | PluginStopError "string list"

fun start_plugins :: "nat list \<Rightarrow> heap \<Rightarrow> string list \<times> heap" where
  "start_plugins [] h = ([], h)"
| "start_plugins (a # as) h =
     (if start_fails (h a)
      then (case start_plugins as h of (failed, h') \<Rightarrow> (plugin_id (h a) # failed, h'))
      else start_plugins as (h(a := (h a)\<lparr>started := True\<rparr>)))"

fun stop_plugins :: "nat list \<Rightarrow> heap \<Rightarrow> string list \<times> heap" where
  "stop_plugins [] h = ([], h)"
| "stop_plugins (a # as) h =
     (if stop_fails (h a)
      then (case stop_plugins as h of (failed, h') \<Rightarrow> (plugin_id (h a) # failed, h'))
      else stop_plugins as (h(a := (h a)\<lparr>stopped := True\<rparr>)))"

definition start :: "plugin_manager \<Rightarrow> heap \<Rightarrow> (lifecycle_error + unit) \<times> heap" where
  "start m h =
     (case start_plugins (plugins m) h of
        (failed, h') \<Rightarrow> (if failed = [] then Inr () else Inl (PluginStartError failed), h'))"

definition stop :: "plugin_manager \<Rightarrow> heap \<Rightarrow> (lifecycle_error + unit) \<times> heap" where
  "stop m h =
     (case stop_plugins (rev (plugins m)) h of
        (failed, h') \<Rightarrow> (if failed = [] then Inr () else Inl (PluginStopError failed), h'))"

subsection \<open>The plugins of the tests\<close>

text \<open>
  The three eggs of the test directory, in the order in which the tests expect them:
  \<^verbatim>\<open>acme.foo\<close> at address 0, \<^verbatim>\<open>acme.bar\<close> at 1, \<^verbatim>\<open>acme.baz\<close> at 2.
\<close>

definition acme :: heap where
  "acme a =
     \<lparr>plugin_id = (if a = 0 then ''acme.foo'' else if a = 1 then ''acme.bar'' else ''acme.baz''),
      started = False, stopped = False, start_fails = False, stop_fails = False\<rparr>"

section \<open>Proofs\<close>

subsection \<open>Evaluating the model\<close>

lemmas world_defs = get_extensions_def log_def store_field_def set_event_handled_def

lemmas ctor_defs = bind_extension_point_def init_def new_binding_def initialize_def
  on_trait_change_def add_extension_listener_def

lemmas count_defs = registry_writes_def field_writes_def

lemmas ex_defs = ex_world_def ex_bound_def ex_twice_def ex_pair_def ex_registry_def
  ex_object_def blank_binding_def ex_unset_def

lemmas sync_defs = invoke_def registry_change_reaches_trait_def
  trait_change_reaches_registry_def synchronised_after_def

lemma fuel_ge: "k \<le> n \<Longrightarrow> \<exists>m. n = m + k" for n k :: nat
  by (metis le_add_diff_inverse2)

lemma ex_world_bind:
  "bind_extension_point 2 ex_world 0 ''views'' ''acme.views'' = Some (Inr 0, ex_bound)"
  by (simp add: eval_nat_numeral ctor_defs world_defs ex_defs)

lemma ex_bound_bind:
  "bind_extension_point 2 ex_bound 0 ''views'' ''acme.views'' = Some (Inr 1, ex_twice)"
  "bind_extension_point 2 ex_bound 1 ''views'' ''acme.views'' = Some (Inr 1, ex_pair)"
  by (simp_all add: eval_nat_numeral ctor_defs world_defs ex_defs fun_upd_twist)


subsection \<open>The handler of a binding that is alone on its trait\<close>
















subsection \<open>From the registry to the trait\<close>




subsection \<open>From the trait to the registry and back\<close>




subsection \<open>Construction\<close>

text \<open>
  The factory makes a binding that is alone on its trait when nobody was subscribed to
  the trait before.
\<close>

lemma construction_makes_alone:
  assumes reg: "extension_registry w = Some r"
    and nobody: "filter (\<lambda>l. fst l = tn) (trait_listeners (objects w ob)) = []"
    and fuel: "2 \<le> n"
  shows "\<exists>w'. bind_extension_point n w ob tn ep = Some (Inr (next_binding w), w')
           \<and> alone_on_trait w' (next_binding w)
           \<and> \<not> event_handled (bindings w' (next_binding w))"
proof -
  from fuel obtain m where m: "n = m + 2"
    using fuel_ge by blast
  show ?thesis
    by (simp add: m eval_nat_numeral reg nobody ctor_defs world_defs alone_on_trait_def)
qed



text \<open>
  C9. The registry is the one class attribute \<open>extension_registry\<close> of the world, which
  every binding reads; no binding holds a registry of its own. While the attribute is
  \<^verbatim>\<open>None\<close>, the factory and the constructor raise \<^verbatim>\<open>AttributeError\<close> in the initial
  pull: no object has changed, so no listener was subscribed, nothing was called on a
  collaborator, and the attribute is still \<^verbatim>\<open>None\<close>.
\<close>

theorem construction_without_registry_raises_before_subscribing:
  assumes unset: "extension_registry w = None"
    and fuel: "1 \<le> n"
  shows "\<exists>w'. bind_extension_point n w ob tn ep = Some (Inl AttributeError, w')
           \<and> init n w ob tn ep = Some (Inl AttributeError, w')
           \<and> objects w' = objects w
           \<and> extension_registry w' = None
           \<and> calls w' = calls w"
proof -
  from fuel obtain m where m: "n = m + 1"
    using fuel_ge by blast
  show ?thesis
    by (simp add: m unset ctor_defs world_defs)
qed

theorem construction_without_registry_raises_before_subscribing_witness:
  "extension_registry ex_unset = None
   \<and> (\<exists>w'. bind_extension_point 1 ex_unset 0 ''views'' ''acme.views''
              = Some (Inl AttributeError, w')
          \<and> objects w' = objects ex_unset
          \<and> extension_registry w' = None
          \<and> calls w' = calls ex_unset)"
proof -
  have u: "extension_registry ex_unset = None"
    by (simp add: ex_defs)
  have f: "(1::nat) \<le> 1"
    by simp
  from construction_without_registry_raises_before_subscribing [OF u f] u show ?thesis
    by blast
qed

text \<open>
  C10. Whatever the world and the arguments, the factory returns or raises, and in both
  cases the contents of the registry are what they were and no call of
  \<^verbatim>\<open>set_extensions\<close> has been made.
\<close>

theorem construction_never_writes_registry:
  assumes fuel: "2 \<le> n"
  shows "\<exists>res w'. bind_extension_point n w ob tn ep = Some (res, w')
           \<and> map_option extensions (extension_registry w')
               = map_option extensions (extension_registry w)
           \<and> filter is_set_extensions (calls w') = filter is_set_extensions (calls w)
           \<and> registry_writes w' = registry_writes w"
proof -
  from fuel obtain m where m: "n = m + 2"
    using fuel_ge by blast
  show ?thesis
    by (simp add: m eval_nat_numeral ctor_defs world_defs count_defs split: option.splits)
qed

theorem construction_never_writes_registry_witness:
  "(2::nat) \<le> 2
   \<and> (\<exists>res w'. bind_extension_point 2 ex_world 0 ''views'' ''acme.views'' = Some (res, w')
          \<and> map_option extensions (extension_registry w') = Some (extensions ex_registry)
          \<and> registry_writes w' = 0)"
proof -
  have f: "(2::nat) \<le> 2"
    by simp
  have e: "map_option extensions (extension_registry ex_world) = Some (extensions ex_registry)"
    "registry_writes ex_world = 0"
    by (simp_all add: ex_defs count_defs)
  from construction_never_writes_registry [OF f, of ex_world 0 "''views''" "''acme.views''"]
  show ?thesis
    unfolding e by auto
qed




subsection \<open>The flag when the handler raises\<close>

text \<open>
  C4. The handler sets the flag, calls \<^verbatim>\<open>_set_trait\<close> and clears the flag, without a
  \<^verbatim>\<open>try\<close>: when \<^verbatim>\<open>_set_trait\<close> raises, the flag stays set. In \<open>ex_unset\<close> the read of the
  registry raises; the handler leaves the world with the flag of the binding set, and a
  field-change notification delivered in that state, with the registry in place, is
  dropped without a call of \<^verbatim>\<open>set_extensions\<close>.
\<close>

theorem flag_stays_set_when_handler_raises:
  "on_extension_point_changed 7 ex_unset 0
     = Some (Inl AttributeError, set_event_handled 0 True ex_unset)
   \<and> event_handled (bindings (set_event_handled 0 True ex_unset) 0)
   \<and> on_trait_changed 7 (set_event_handled 0 True ex_bound) 0 0 ''views''
       (Some [''a'', ''b'']) [''c'']
     = Some (Inr (), set_event_handled 0 True ex_bound)"
  by (simp add: eval_nat_numeral world_defs ex_defs)

subsection \<open>Subscriptions are for life\<close>

text \<open>No call of the chain changes a subscription, on any object or on the registry.\<close>

lemma run_keeps_listeners:
  "run n c w = Some (res, w') \<Longrightarrow>
     (\<forall>ob. trait_listeners (objects w' ob) = trait_listeners (objects w ob))
     \<and> map_option listeners (extension_registry w') = map_option listeners (extension_registry w)"
proof (induction n arbitrary: c w res w')
  case 0
  then show ?case
    by simp
next
  case (Suc n)
  show ?case
  proof (cases c)
    case (Set_trait b notify)
    with Suc.prems Suc.IH [of "Hastraits_set _ _ _ _" "log _ w"] show ?thesis
      by (auto simp: world_defs split: option.splits sum.splits prod.splits if_splits)
  next
    case (Hastraits_set ob name v notify)
    with Suc.prems Suc.IH [of "Trait_dispatch _ _ _ _ _" "log _ (store_field _ _ _ w)"]
    show ?thesis
      by (auto simp: world_defs split: if_splits)
  next
    case (Trait_dispatch ls ob name old new)
    show ?thesis
    proof (cases ls)
      case Nil
      with Suc.prems Trait_dispatch show ?thesis
        by simp
    next
      case (Cons l ls')
      with Suc.prems Trait_dispatch Suc.IH [of "On_trait_changed _ _ _ _ _" w]
        Suc.IH [of "Trait_dispatch _ _ _ _ _"]
      show ?thesis
        by (fastforce split: option.splits sum.splits prod.splits if_splits)
    qed
  next
    case (On_trait_changed b ob name old new)
    with Suc.prems Suc.IH [of "Set_extensions _ _" w] show ?thesis
      by (auto split: option.splits sum.splits prod.splits if_splits)
  next
    case (Set_extensions ep v)
    with Suc.prems Suc.IH [of "Call_listeners _"] show ?thesis
      by (fastforce simp: world_defs split: option.splits sum.splits prod.splits if_splits)
  next
    case (Call_listeners ls)
    show ?thesis
    proof (cases ls)
      case Nil
      with Suc.prems Call_listeners show ?thesis
        by simp
    next
      case (Cons l ls')
      with Suc.prems Call_listeners Suc.IH [of "On_extension_point_changed _" w]
        Suc.IH [of "Call_listeners _"]
      show ?thesis
        by (fastforce split: option.splits sum.splits prod.splits if_splits)
    qed
  next
    case (On_extension_point_changed b)
    with Suc.prems Suc.IH [of "Set_trait _ _" "set_event_handled b True w"] show ?thesis
      by (fastforce simp: set_event_handled_def
          split: option.splits sum.splits prod.splits if_splits)
  qed
qed

text \<open>
  C6, as the claim states it, fails: the class has no dispose operation. In \<open>ex_bound\<close>,
  after any of the four methods of the binding has been called, a change of the extension
  point still arrives in the trait and a change of the trait still arrives in the
  registry.
\<close>

theorem synchronised_after_every_method:
  "synchronised_after 20 ex_bound 0
     (M_on_trait_changed 0 ''views'' (Some [''a'', ''b'']) [''q'']) [''z''] [''y'']
   \<and> synchronised_after 20 ex_bound 0 M_on_extension_point_changed [''z''] [''y'']
   \<and> synchronised_after 20 ex_bound 0 M_initialize [''z''] [''y'']
   \<and> synchronised_after 20 ex_bound 0 (M_set_trait True) [''z''] [''y'']
   \<and> synchronised_after 20 ex_bound 0 (M_set_trait False) [''z''] [''y'']"
  by (simp add: sync_defs eval_nat_numeral ctor_defs world_defs ex_defs)

text \<open>
  C6, amended. The class has no dispose operation, and none of the methods of a binding
  unsubscribes: after a call of any of them, whatever its outcome, every object has the
  subscriptions it had, in the same order, possibly followed by new ones, and so has the
  registry.
\<close>

theorem no_method_unsubscribes:
  assumes call: "invoke n w b m = Some (res, w')"
  shows "(\<forall>ob. \<exists>more. trait_listeners (objects w' ob) = trait_listeners (objects w ob) @ more)
       \<and> (\<forall>r. extension_registry w = Some r \<longrightarrow>
            (\<exists>r' more. extension_registry w' = Some r' \<and> listeners r' = listeners r @ more))"
proof (cases m)
  case (M_on_trait_changed ob name old new)
  with call have "run n (On_trait_changed b ob name old new) w = Some (res, w')"
    by (simp add: invoke_def)
  from run_keeps_listeners [OF this] show ?thesis
    by auto
next
  case M_on_extension_point_changed
  with call have "run n (On_extension_point_changed b) w = Some (res, w')"
    by (simp add: invoke_def)
  from run_keeps_listeners [OF this] show ?thesis
    by auto
next
  case M_initialize
  with call show ?thesis
    by (auto simp: invoke_def initialize_def on_trait_change_def add_extension_listener_def
        log_def split: option.splits)
next
  case (M_set_trait notify)
  with call have "run n (Set_trait b notify) w = Some (res, w')"
    by (simp add: invoke_def)
  from run_keeps_listeners [OF this] show ?thesis
    by auto
qed

theorem no_method_unsubscribes_witness:
  "invoke 7 ex_bound 0 M_on_extension_point_changed
     = Some (Inr (), log (SetField 0 ''views'' [''a'', ''b''] True) (log (GetExtensions ''acme.views'') ex_bound))
   \<and> (\<forall>ob. \<exists>more. trait_listeners
          (objects (log (SetField 0 ''views'' [''a'', ''b''] True) (log (GetExtensions ''acme.views'') ex_bound)) ob)
        = trait_listeners (objects ex_bound ob) @ more)"
proof -
  have c: "invoke 7 ex_bound 0 M_on_extension_point_changed
     = Some (Inr (), log (SetField 0 ''views'' [''a'', ''b''] True) (log (GetExtensions ''acme.views'') ex_bound))"
    by (simp add: invoke_def eval_nat_numeral world_defs ex_defs)
  from no_method_unsubscribes [OF c] c show ?thesis
    by blast
qed

section \<open>Proofs about the plugin manager\<close>

subsection \<open>Patterns\<close>


text \<open>A pattern without special characters matches the id equal to it and no other.\<close>

lemma tokens_plain: "\<forall>c\<in>set pat. \<not> special c \<Longrightarrow> tokens pat = map Lit pat"
  by (induction pat) (simp_all add: special_def)

lemma matches_plain: "matches (map Lit pat) s = (s = pat)"
proof (induction pat arbitrary: s)
  case Nil
  show ?case
    by simp
next
  case (Cons a pat)
  show ?case
    by (cases s) (auto simp: Cons.IH)
qed

lemma fnmatch_plain: "\<forall>c\<in>set pat. \<not> special c \<Longrightarrow> fnmatch name pat = (name = pat)"
  by (simp add: fnmatch_def tokens_plain matches_plain)

text \<open>The two loops of the filter, as list functions.\<close>

lemma any_match_iff: "any_match pid pats = (\<exists>pat\<in>set pats. fnmatch pid pat)"
  by (induction pats) auto

lemma filter_plugins_filter:
  "filter_plugins m h as
     = filter (\<lambda>a. is_included m (plugin_id (h a)) \<and> \<not> is_excluded m (plugin_id (h a))) as"
  by (induction as) auto

text \<open>Wild cards, classes and letter case on the ids of the tests.\<close>

lemma fnmatch_acme_examples:
  "fnmatch ''acme.bar'' ''acme.b*''" "fnmatch ''acme.baz'' ''acme.b*''"
  "\<not> fnmatch ''acme.foo'' ''acme.b*''" "fnmatch ''acme.foo'' ''acme.?oo''"
  "fnmatch ''acme.foo'' ''acme.[a-f]*''" "\<not> fnmatch ''acme.foo'' ''acme.[!a-f]*''"
  "\<not> fnmatch ''acme.foo'' ''ACME.foo''"
  by (simp_all add: fnmatch_def split_class_def in_class_def)


subsection \<open>The filter\<close>

text \<open>
  C3. The plugins of a manager made from candidates and optional include and exclude
  lists are the candidates, in their order, whose id matches some include pattern unless
  the include list is empty, and matches no exclude pattern. So a candidate whose id
  matches an include pattern and an exclude pattern is not among them. A pattern without
  \<^verbatim>\<open>*\<close>, \<^verbatim>\<open>?\<close> and \<^verbatim>\<open>[\<close> matches the id equal to it, character by character, and no
  other.
\<close>

theorem plugins_are_filtered_candidates:
  "plugins (create h explicit resolved inc exc)
     = filter (\<lambda>a. (patterns inc = [] \<or> (\<exists>pat\<in>set (patterns inc). fnmatch (plugin_id (h a)) pat))
                  \<and> (patterns exc = [] \<or> (\<forall>pat\<in>set (patterns exc). \<not> fnmatch (plugin_id (h a)) pat)))
         (explicit @ resolved)
   \<and> (\<forall>a pi pe. pi \<in> set (patterns inc) \<and> fnmatch (plugin_id (h a)) pi
          \<and> pe \<in> set (patterns exc) \<and> fnmatch (plugin_id (h a)) pe
          \<longrightarrow> a \<notin> set (plugins (create h explicit resolved inc exc)))
   \<and> (\<forall>name pat. (\<forall>c\<in>set pat. \<not> special c) \<longrightarrow> fnmatch name pat = (name = pat))"
proof -
  define m where "m = \<lparr>plugins = [], include_list = patterns inc, exclude_list = patterns exc\<rparr>"
  have keep: "(is_included m pid \<and> \<not> is_excluded m pid)
      = ((patterns inc = [] \<or> (\<exists>pat\<in>set (patterns inc). fnmatch pid pat))
         \<and> (patterns exc = [] \<or> (\<forall>pat\<in>set (patterns exc). \<not> fnmatch pid pat)))" for pid
    by (auto simp: m_def is_included_def is_excluded_def any_match_iff)
  have eq: "plugins (create h explicit resolved inc exc)
     = filter (\<lambda>a. (patterns inc = [] \<or> (\<exists>pat\<in>set (patterns inc). fnmatch (plugin_id (h a)) pat))
                  \<and> (patterns exc = [] \<or> (\<forall>pat\<in>set (patterns exc). \<not> fnmatch (plugin_id (h a)) pat)))
         (explicit @ resolved)"
    unfolding create_def Let_def m_def [symmetric]
    by (simp add: filter_plugins_filter keep)
  have conflict: "\<forall>a pi pe. pi \<in> set (patterns inc) \<and> fnmatch (plugin_id (h a)) pi
          \<and> pe \<in> set (patterns exc) \<and> fnmatch (plugin_id (h a)) pe
          \<longrightarrow> a \<notin> set (plugins (create h explicit resolved inc exc))"
    unfolding eq by auto
  from eq conflict fnmatch_plain show ?thesis
    by blast
qed


subsection \<open>Starting and stopping\<close>

text \<open>
  A pass touches the plugins of its list only, never clears a status it finds set, and
  sets the status of every plugin of the list when it reports no failure.
\<close>

lemma start_plugins_frame: "a \<notin> set as \<Longrightarrow> snd (start_plugins as h) a = h a"
  by (induction as arbitrary: h) (simp_all add: split_beta)

lemma stop_plugins_frame: "a \<notin> set as \<Longrightarrow> snd (stop_plugins as h) a = h a"
  by (induction as arbitrary: h) (simp_all add: split_beta)

lemma start_plugins_keeps_started:
  "started (h a) \<Longrightarrow> started (snd (start_plugins as h) a)"
  by (induction as arbitrary: h) (simp_all add: split_beta)

lemma stop_plugins_keeps_stopped:
  "stopped (h a) \<Longrightarrow> stopped (snd (stop_plugins as h) a)"
  by (induction as arbitrary: h) (simp_all add: split_beta)

lemma start_plugins_all:
  "fst (start_plugins as h) = [] \<Longrightarrow> a \<in> set as \<Longrightarrow> started (snd (start_plugins as h) a)"
proof (induction as arbitrary: h)
  case Nil
  then show ?case
    by simp
next
  case (Cons x as)
  from Cons.prems(1) have ok: "\<not> start_fails (h x)"
    by (auto simp: split_beta split: if_splits)
  define h' where "h' = h(x := (h x)\<lparr>started := True\<rparr>)"
  from ok have step: "start_plugins (x # as) h = start_plugins as h'"
    by (simp add: h'_def)
  have rest: "fst (start_plugins as h') = []"
    using Cons.prems(1) unfolding step .
  show ?case
  proof (cases "a \<in> set as")
    case True
    from Cons.IH [OF rest True] show ?thesis
      unfolding step .
  next
    case False
    with Cons.prems(2) have "started (h' a)"
      by (simp add: h'_def)
    then have "started (snd (start_plugins as h') a)"
      by (rule start_plugins_keeps_started)
    then show ?thesis
      unfolding step .
  qed
qed

lemma stop_plugins_all:
  "fst (stop_plugins as h) = [] \<Longrightarrow> a \<in> set as \<Longrightarrow> stopped (snd (stop_plugins as h) a)"
proof (induction as arbitrary: h)
  case Nil
  then show ?case
    by simp
next
  case (Cons x as)
  from Cons.prems(1) have ok: "\<not> stop_fails (h x)"
    by (auto simp: split_beta split: if_splits)
  define h' where "h' = h(x := (h x)\<lparr>stopped := True\<rparr>)"
  from ok have step: "stop_plugins (x # as) h = stop_plugins as h'"
    by (simp add: h'_def)
  have rest: "fst (stop_plugins as h') = []"
    using Cons.prems(1) unfolding step .
  show ?case
  proof (cases "a \<in> set as")
    case True
    from Cons.IH [OF rest True] show ?thesis
      unfolding step .
  next
    case False
    with Cons.prems(2) have "stopped (h' a)"
      by (simp add: h'_def)
    then have "stopped (snd (stop_plugins as h') a)"
      by (rule stop_plugins_keeps_stopped)
    then show ?thesis
      unfolding step .
  qed
qed

text \<open>
  C8. When \<^verbatim>\<open>start()\<close> returns without reporting a failure, every plugin the manager
  holds is started; when \<^verbatim>\<open>stop()\<close> returns without reporting a failure, every plugin it
  holds is stopped; and a plugin the manager does not hold is, after either call with
  whatever outcome, what it was before.
\<close>

theorem start_and_stop_reach_the_held_plugins_only:
  "(fst (start m h) = Inr () \<longrightarrow> (\<forall>a\<in>set (plugins m). started (snd (start m h) a)))
   \<and> (fst (stop m h) = Inr () \<longrightarrow> (\<forall>a\<in>set (plugins m). stopped (snd (stop m h) a)))
   \<and> (\<forall>a. a \<notin> set (plugins m) \<longrightarrow> snd (start m h) a = h a \<and> snd (stop m h) a = h a)"
proof -
  have s: "fst (start m h) = Inr () \<longrightarrow> (\<forall>a\<in>set (plugins m). started (snd (start m h) a))"
  proof (intro impI ballI)
    fix a
    assume r: "fst (start m h) = Inr ()" and a: "a \<in> set (plugins m)"
    from r have "fst (start_plugins (plugins m) h) = []"
      by (simp add: start_def split_beta split: if_splits)
    from start_plugins_all [OF this a] show "started (snd (start m h) a)"
      by (simp add: start_def split_beta)
  qed
  have t: "fst (stop m h) = Inr () \<longrightarrow> (\<forall>a\<in>set (plugins m). stopped (snd (stop m h) a))"
  proof (intro impI ballI)
    fix a
    assume r: "fst (stop m h) = Inr ()" and a: "a \<in> set (plugins m)"
    from r have e: "fst (stop_plugins (rev (plugins m)) h) = []"
      by (simp add: stop_def split_beta split: if_splits)
    from a have "a \<in> set (rev (plugins m))"
      by simp
    from stop_plugins_all [OF e this] show "stopped (snd (stop m h) a)"
      by (simp add: stop_def split_beta)
  qed
  have f: "\<forall>a. a \<notin> set (plugins m) \<longrightarrow> snd (start m h) a = h a \<and> snd (stop m h) a = h a"
    by (simp add: start_def stop_def split_beta start_plugins_frame stop_plugins_frame)
  from s t f show ?thesis
    by blast
qed


text \<open>The four filters of the test case, with the lists the tests expect.\<close>

lemmas manager_defs = create_def patterns_def is_included_def is_excluded_def acme_def fnmatch_def

lemma test_include_list:
  "map (\<lambda>a. plugin_id (acme a))
     (plugins (create acme [] [0, 1, 2] (Some [''acme.foo'', ''acme.bar'']) None))
   = [''acme.foo'', ''acme.bar'']"
  by (simp add: manager_defs)

lemma test_include_wildcard:
  "map (\<lambda>a. plugin_id (acme a)) (plugins (create acme [] [0, 1, 2] (Some [''acme.b*'']) None))
   = [''acme.bar'', ''acme.baz'']"
  by (simp add: manager_defs)

lemma test_exclude_list:
  "map (\<lambda>a. plugin_id (acme a))
     (plugins (create acme [] [0, 1, 2] None (Some [''acme.foo'', ''acme.baz''])))
   = [''acme.bar'']"
  by (simp add: manager_defs)

lemma test_exclude_wildcard:
  "map (\<lambda>a. plugin_id (acme a)) (plugins (create acme [] [0, 1, 2] None (Some [''acme.b*''])))
   = [''acme.foo'']"
  by (simp add: manager_defs)


theorem plugins_are_filtered_candidates_witness:
  "plugins (create acme [] [0, 1, 2] (Some [''acme.*'']) (Some [''acme.b*''])) = [0]
   \<and> ''acme.*'' \<in> set (patterns (Some [''acme.*''])) \<and> fnmatch (plugin_id (acme 1)) ''acme.*''
   \<and> ''acme.b*'' \<in> set (patterns (Some [''acme.b*''])) \<and> fnmatch (plugin_id (acme 1)) ''acme.b*''
   \<and> 1 \<notin> set (plugins (create acme [] [0, 1, 2] (Some [''acme.*'']) (Some [''acme.b*''])))
   \<and> list_all (\<lambda>c. \<not> special c) ''acme.foo''
   \<and> fnmatch ''ACME.foo'' ''acme.foo'' = (''ACME.foo'' = ''acme.foo'')"
proof -
  have m1: "fnmatch (plugin_id (acme 1)) ''acme.*''"
    by (simp add: acme_def fnmatch_def)
  have m2: "fnmatch (plugin_id (acme 1)) ''acme.b*''"
    by (simp add: acme_def fnmatch_def)
  have p1: "''acme.*'' \<in> set (patterns (Some [''acme.*'']))"
    by (simp add: patterns_def)
  have p2: "''acme.b*'' \<in> set (patterns (Some [''acme.b*'']))"
    by (simp add: patterns_def)
  have s: "\<forall>c\<in>set ''acme.foo''. \<not> special c"
    by (simp add: special_def)
  note t = plugins_are_filtered_candidates
         [of acme "[]" "[0, 1, 2]" "Some [''acme.*'']" "Some [''acme.b*'']"]
  from t [THEN conjunct1]
  have a: "plugins (create acme [] [0, 1, 2] (Some [''acme.*'']) (Some [''acme.b*''])) = [0]"
    by (simp add: patterns_def acme_def fnmatch_def)
  from p1 m1 p2 m2
  have both: "''acme.*'' \<in> set (patterns (Some [''acme.*'']))
      \<and> fnmatch (plugin_id (acme 1)) ''acme.*''
      \<and> ''acme.b*'' \<in> set (patterns (Some [''acme.b*'']))
      \<and> fnmatch (plugin_id (acme 1)) ''acme.b*''"
    by (intro conjI)
  from t [THEN conjunct2, THEN conjunct1, rule_format, OF both]
  have n: "1 \<notin> set (plugins (create acme [] [0, 1, 2] (Some [''acme.*'']) (Some [''acme.b*''])))" .
  from t [THEN conjunct2, THEN conjunct2, THEN spec, THEN spec, THEN mp, OF s]
  have c: "fnmatch ''ACME.foo'' ''acme.foo'' = (''ACME.foo'' = ''acme.foo'')" .
  from s have l: "list_all (\<lambda>c. \<not> special c) ''acme.foo''"
    by (simp add: list_all_iff)
  from a p1 m1 p2 m2 n l c show ?thesis
    by (intro conjI)
qed


theorem start_and_stop_reach_the_held_plugins_only_witness:
  "fst (start (create acme [] [0, 1, 2] (Some [''acme.b*'']) None) acme) = Inr ()
   \<and> fst (stop (create acme [] [0, 1, 2] (Some [''acme.b*'']) None) acme) = Inr ()
   \<and> 1 \<in> set (plugins (create acme [] [0, 1, 2] (Some [''acme.b*'']) None))
   \<and> 0 \<notin> set (plugins (create acme [] [0, 1, 2] (Some [''acme.b*'']) None))
   \<and> started (snd (start (create acme [] [0, 1, 2] (Some [''acme.b*'']) None) acme) 1)
   \<and> stopped (snd (stop (create acme [] [0, 1, 2] (Some [''acme.b*'']) None) acme) 1)
   \<and> snd (start (create acme [] [0, 1, 2] (Some [''acme.b*'']) None) acme) 0 = acme 0
   \<and> snd (stop (create acme [] [0, 1, 2] (Some [''acme.b*'']) None) acme) 0 = acme 0"
proof -
  define m where "m = create acme [] [0, 1, 2] (Some [''acme.b*'']) None"
  have p: "plugins m = [1, 2]"
    by (simp add: m_def manager_defs)
  have s: "fst (start m acme) = Inr ()"
    by (simp add: start_def p acme_def)
  have t: "fst (stop m acme) = Inr ()"
    by (simp add: stop_def p acme_def)
  have i: "1 \<in> set (plugins m)" and o: "0 \<notin> set (plugins m)"
    by (simp_all add: p)
  note th = start_and_stop_reach_the_held_plugins_only [of m acme]
  from th [THEN conjunct1, rule_format, OF s i] have a: "started (snd (start m acme) 1)" .
  from th [THEN conjunct2, THEN conjunct1, rule_format, OF t i]
  have b: "stopped (snd (stop m acme) 1)" .
  from th [THEN conjunct2, THEN conjunct2, rule_format, OF o]
  have c: "snd (start m acme) 0 = acme 0 \<and> snd (stop m acme) 0 = acme 0" .
  from s t i o a b c show ?thesis
    unfolding m_def by (intro conjI) simp_all
qed

text \<open>
  The run of \<^verbatim>\<open>_test_start_and_stop\<close> for the include list \<^verbatim>\<open>['acme.b*']\<close>: each
  expected id is found by \<^verbatim>\<open>get_plugin\<close>, the plugin found is started after the start,
  and stopped after the stop that follows.
\<close>

lemma test_start_and_stop:
  "get_plugin (create acme [] [0, 1, 2] (Some [''acme.b*'']) None) acme ''acme.bar'' = Some 1"
  "get_plugin (create acme [] [0, 1, 2] (Some [''acme.b*'']) None) acme ''acme.baz'' = Some 2"
  "started (snd (start (create acme [] [0, 1, 2] (Some [''acme.b*'']) None) acme) 1)"
  "started (snd (start (create acme [] [0, 1, 2] (Some [''acme.b*'']) None) acme) 2)"
  "stopped (snd (stop (create acme [] [0, 1, 2] (Some [''acme.b*'']) None)
                   (snd (start (create acme [] [0, 1, 2] (Some [''acme.b*'']) None) acme))) 1)"
  "stopped (snd (stop (create acme [] [0, 1, 2] (Some [''acme.b*'']) None)
                   (snd (start (create acme [] [0, 1, 2] (Some [''acme.b*'']) None) acme))) 2)"
  by (simp_all add: get_plugin_def start_def stop_def manager_defs)

end
